theory Spec2Isabelle
  imports Complex_Main
begin

section \<open>JavaScript numbers\<close>

text \<open>
  The engine computes with JavaScript Numbers. A Number is modelled as a finite real or one
  of the three special values of IEEE 754; arithmetic on finite values is exact (rounding
  and overflow of doubles are not modelled), and the special values follow the language:
  a division by zero gives an infinity or NaN and never raises, every comparison with NaN
  is false. The sign of zero is not modelled: a zero divisor counts as \<open>+0\<close>, which is what
  every divisor in this engine is when it is zero (a square root, a mean of integers, a
  sum of absolute values). Where a property depends on a sum of weights or on a printed
  digit, it is stated with a tolerance that the double-precision computation meets too.
\<close>

datatype jsnum = Fin real | PInf | NInf | NaN

fun jneg :: "jsnum \<Rightarrow> jsnum" where
  "jneg (Fin a) = Fin (- a)"
| "jneg PInf = NInf"
| "jneg NInf = PInf"
| "jneg NaN = NaN"

fun jadd :: "jsnum \<Rightarrow> jsnum \<Rightarrow> jsnum" where
  "jadd (Fin a) (Fin b) = Fin (a + b)"
| "jadd (Fin a) PInf = PInf"
| "jadd (Fin a) NInf = NInf"
| "jadd PInf (Fin b) = PInf"
| "jadd PInf PInf = PInf"
| "jadd PInf NInf = NaN"
| "jadd NInf (Fin b) = NInf"
| "jadd NInf PInf = NaN"
| "jadd NInf NInf = NInf"
| "jadd NaN y = NaN"
| "jadd x NaN = NaN"

definition jsub :: "jsnum \<Rightarrow> jsnum \<Rightarrow> jsnum" where
  "jsub x y = jadd x (jneg y)"

fun jmul :: "jsnum \<Rightarrow> jsnum \<Rightarrow> jsnum" where
  "jmul (Fin a) (Fin b) = Fin (a * b)"
| "jmul (Fin a) PInf = (if a = 0 then NaN else if 0 < a then PInf else NInf)"
| "jmul (Fin a) NInf = (if a = 0 then NaN else if 0 < a then NInf else PInf)"
| "jmul PInf (Fin b) = (if b = 0 then NaN else if 0 < b then PInf else NInf)"
| "jmul NInf (Fin b) = (if b = 0 then NaN else if 0 < b then NInf else PInf)"
| "jmul PInf PInf = PInf"
| "jmul PInf NInf = NInf"
| "jmul NInf PInf = NInf"
| "jmul NInf NInf = PInf"
| "jmul NaN y = NaN"
| "jmul x NaN = NaN"

fun jdiv :: "jsnum \<Rightarrow> jsnum \<Rightarrow> jsnum" where
  "jdiv (Fin a) (Fin b) =
     (if b = 0 then (if a = 0 then NaN else if 0 < a then PInf else NInf) else Fin (a / b))"
| "jdiv (Fin a) PInf = Fin 0"
| "jdiv (Fin a) NInf = Fin 0"
| "jdiv PInf (Fin b) = (if b < 0 then NInf else PInf)"
| "jdiv NInf (Fin b) = (if b < 0 then PInf else NInf)"
| "jdiv PInf PInf = NaN"
| "jdiv PInf NInf = NaN"
| "jdiv NInf PInf = NaN"
| "jdiv NInf NInf = NaN"
| "jdiv NaN y = NaN"
| "jdiv x NaN = NaN"

text \<open>\<open>x > y\<close>, \<open>x < y\<close> and \<open>x >= y\<close>.\<close>

fun jgt :: "jsnum \<Rightarrow> jsnum \<Rightarrow> bool" where
  "jgt (Fin a) (Fin b) = (b < a)"
| "jgt (Fin a) PInf = False"
| "jgt (Fin a) NInf = True"
| "jgt PInf (Fin b) = True"
| "jgt PInf PInf = False"
| "jgt PInf NInf = True"
| "jgt NInf y = False"
| "jgt NaN y = False"
| "jgt x NaN = False"

definition jlt :: "jsnum \<Rightarrow> jsnum \<Rightarrow> bool" where
  "jlt x y = jgt y x"

fun jge :: "jsnum \<Rightarrow> jsnum \<Rightarrow> bool" where
  "jge (Fin a) (Fin b) = (b \<le> a)"
| "jge (Fin a) PInf = False"
| "jge (Fin a) NInf = True"
| "jge PInf (Fin b) = True"
| "jge PInf PInf = True"
| "jge PInf NInf = True"
| "jge NInf (Fin b) = False"
| "jge NInf PInf = False"
| "jge NInf NInf = True"
| "jge NaN y = False"
| "jge x NaN = False"

text \<open>\<open>Math.abs\<close>, \<open>Math.max\<close>, \<open>Math.min\<close> and \<open>Math.sqrt\<close>.\<close>

fun jabs :: "jsnum \<Rightarrow> jsnum" where
  "jabs (Fin a) = Fin \<bar>a\<bar>"
| "jabs PInf = PInf"
| "jabs NInf = PInf"
| "jabs NaN = NaN"

fun jmax :: "jsnum \<Rightarrow> jsnum \<Rightarrow> jsnum" where
  "jmax NaN y = NaN"
| "jmax x NaN = NaN"
| "jmax x y = (if jgt y x then y else x)"

fun jmin :: "jsnum \<Rightarrow> jsnum \<Rightarrow> jsnum" where
  "jmin NaN y = NaN"
| "jmin x NaN = NaN"
| "jmin x y = (if jgt x y then y else x)"

fun jsqrt :: "jsnum \<Rightarrow> jsnum" where
  "jsqrt (Fin a) = (if a < 0 then NaN else Fin (sqrt a))"
| "jsqrt PInf = PInf"
| "jsqrt NInf = NaN"
| "jsqrt NaN = NaN"

fun isNaN :: "jsnum \<Rightarrow> bool" where
  "isNaN NaN = True"
| "isNaN x = False"

text \<open>
  \<open>array[i]\<close> on an array of numbers. Out of range the language gives \<open>undefined\<close>;
  the engine only ever feeds such a read to arithmetic or to a comparison, where
  \<open>undefined\<close> converts to NaN.
\<close>

definition elem :: "jsnum list \<Rightarrow> int \<Rightarrow> jsnum" where
  "elem array i = (if 0 \<le> i \<and> i < int (length array) then array ! nat i else NaN)"

text \<open>\<open>array.slice(start, stop)\<close> for indices that are not negative.\<close>

definition slice :: "nat \<Rightarrow> nat \<Rightarrow> 'a list \<Rightarrow> 'a list" where
  "slice start stop array = take (stop - start) (drop start array)"

text \<open>
  \<open>Number.prototype.toFixed(2)\<close>. Below \<open>10\<^sup>2\<^sup>1\<close> in magnitude the result is the decimal
  string of \<open>n / 100\<close> with two fraction digits, where \<open>n\<close> is the integer nearest to
  \<open>100 \<times> |x|\<close> (the larger one on a tie), with a leading minus sign when \<open>x < 0\<close>:
  \<open>Fixed2 neg n\<close> stands for that string. Otherwise the result is the default string of
  the number (\<open>"NaN"\<close>, \<open>"Infinity"\<close>, \<open>"-Infinity"\<close>, or exponent notation):
  \<open>ToString x\<close>.
\<close>

datatype numstr = Fixed2 bool nat | ToString jsnum

fun toFixed2 :: "jsnum \<Rightarrow> numstr" where
  "toFixed2 (Fin a) =
     (if \<bar>a\<bar> < 10 ^ 21 then Fixed2 (a < 0) (nat \<lfloor>\<bar>a\<bar> * 100 + 1 / 2\<rfloor>) else ToString (Fin a))"
| "toFixed2 x = ToString x"

text \<open>The decimal digits of a natural number, as a template literal prints them.\<close>

definition digit_char :: "nat \<Rightarrow> char" where
  "digit_char d = char_of (48 + d)"

function show_nat :: "nat \<Rightarrow> string" where
  "show_nat n = (if n < 10 then [digit_char n] else show_nat (n div 10) @ [digit_char (n mod 10)])"
  by pat_completeness auto
termination
  by (relation "measure (\<lambda>n. n)") auto

declare show_nat.simps [simp del]

section \<open>Library functions\<close>

text \<open>
  \<open>_.mean\<close> of lodash: the sum of the elements, added from left to right starting with
  the first one, divided by the length; NaN on the empty array.
\<close>

definition mean :: "jsnum list \<Rightarrow> jsnum" where
  "mean array =
     (case array of
        [] \<Rightarrow> NaN
      | x # xs \<Rightarrow> jdiv (foldl jadd x xs) (Fin (real (length array))))"

text \<open>
  \<open>math.std\<close> of mathjs on an array of numbers: the square root of the unbiased sample
  variance. It throws a SyntaxError on the empty array ("Function std requires one or
  more parameters (0 provided)"); the variance of a single element is 0.
\<close>

datatype error = SyntaxError | TypeError

definition variance :: "jsnum list \<Rightarrow> jsnum" where
  "variance array =
     (case array of
        [] \<Rightarrow> NaN
      | x # xs \<Rightarrow>
          let n = length array;
              m = jdiv (foldl jadd x xs) (Fin (real n));
              sq = (\<lambda>v. let diff = jsub v m in jmul diff diff);
              sum = foldl jadd (sq x) (map sq xs)
          in if isNaN sum then sum
             else if n = 1 then Fin 0
             else jdiv sum (Fin (real (n - 1))))"

definition std :: "jsnum list \<Rightarrow> error + jsnum" where
  "std array = (if array = [] then Inl SyntaxError else Inr (jsqrt (variance array)))"

section \<open>Data model\<close>

datatype outcome = BIG | SMALL

record DrawRecord =
  issue :: string
  result :: string
  timestamp :: string
  number :: int
  outcome :: outcome

text \<open>
  The record the data source builds for a draw whose first digit group parses to \<open>n\<close>:
  the outcome is BIG from 50 on. The issue, the raw result and the timestamp are not read
  by the engine and are left empty here.
\<close>

definition drawRecord :: "int \<Rightarrow> DrawRecord" where
  "drawRecord n =
     \<lparr>issue = [], result = [], timestamp = [], number = n,
      outcome = (if 50 \<le> n then BIG else SMALL)\<rparr>"

text \<open>\<open>d => d.number\<close>: the number of a record, as a JavaScript Number.\<close>

definition num :: "DrawRecord \<Rightarrow> jsnum" where
  "num d = Fin (real_of_int (number d))"

section \<open>The model population\<close>

datatype family = TREND_FOLLOWING | MEAN_REVERSION | PATTERN_RECOGNITION | STATISTICAL

text \<open>The parameters a model object carries beside its type, id, weight and closure.\<close>

datatype params =
    TrendParams (p_window: nat) (p_threshold: jsnum)
  | MeanReversionParams (p_lookback: nat) (p_deviation: jsnum)
  | PatternParams (p_patternLength: nat) (p_confidence: jsnum)
  | StatisticalParams (p_method: nat)

record Model =
  mtype :: family
  mid :: string
  weight :: jsnum
  params :: params
  predict :: "DrawRecord list \<Rightarrow> error + outcome"

section \<open>Per-family prediction functions\<close>

definition trendFollowingPrediction :: "DrawRecord list \<Rightarrow> nat \<Rightarrow> jsnum \<Rightarrow> outcome" where
  "trendFollowingPrediction data windowSize threshold =
     (if length data < windowSize + 1 then BIG
      else
        let recentNumbers = map num (slice 0 windowSize data);
            previousNumbers = map num (slice windowSize (windowSize * 2) data);
            recentAvg = mean recentNumbers;
            previousAvg = mean previousNumbers;
            trendStrength = jdiv (jsub recentAvg previousAvg) previousAvg
        in if jgt (jabs trendStrength) threshold
           then (if jgt trendStrength (Fin 0) then BIG else SMALL)
           else
             let momentum = jsub (elem recentNumbers 0)
                                 (elem recentNumbers (int (length recentNumbers) - 1))
             in if jgt momentum (Fin 0) then BIG else SMALL)"

definition meanReversionPrediction ::
    "DrawRecord list \<Rightarrow> nat \<Rightarrow> jsnum \<Rightarrow> error + outcome" where
  "meanReversionPrediction data lookback deviation =
     (let numbers = map num (slice 0 lookback data);
          mean_v = mean numbers
      in case std numbers of
           Inl e \<Rightarrow> Inl e
         | Inr std_v \<Rightarrow>
             let current = elem numbers 0;
                 zScore = jdiv (jsub current mean_v) std_v
             in if jgt zScore deviation then Inr SMALL
                else if jlt zScore (jneg deviation) then Inr BIG
                else
                  let shortTerm = slice 0 3 numbers;
                      shortAvg = mean shortTerm
                  in Inr (if jge shortAvg mean_v then BIG else SMALL))"

fun patternsMatch :: "outcome list \<Rightarrow> outcome list \<Rightarrow> bool" where
  "patternsMatch pattern1 pattern2 =
     (if length pattern1 = length pattern2
      then list_all (\<lambda>i. pattern1 ! i = pattern2 ! i) [0..<length pattern1]
      else False)"

text \<open>
  One turn of the scanning loop of \<open>patternRecognitionPrediction\<close>, on the counters
  \<open>(bigPatterns, smallPatterns)\<close>. Reading \<open>data[i - 1].outcome\<close> raises a TypeError
  when \<open>data[i - 1]\<close> is undefined.
\<close>

definition scanStep ::
    "DrawRecord list \<Rightarrow> nat \<Rightarrow> outcome list \<Rightarrow> error + nat \<times> nat \<Rightarrow> nat \<Rightarrow> error + nat \<times> nat" where
  "scanStep data patternLength recentPattern acc i =
     (case acc of
        Inl e \<Rightarrow> Inl e
      | Inr (bigPatterns, smallPatterns) \<Rightarrow>
          let historicalPattern = map outcome (slice i (i + patternLength) data)
          in if patternsMatch recentPattern historicalPattern
             then (if 1 \<le> i \<and> i - 1 < length data
                   then (if outcome (data ! (i - 1)) = BIG
                         then Inr (bigPatterns + 1, smallPatterns)
                         else Inr (bigPatterns, smallPatterns + 1))
                   else Inl TypeError)
             else Inr (bigPatterns, smallPatterns))"

definition patternRecognitionPrediction :: "DrawRecord list \<Rightarrow> nat \<Rightarrow> error + outcome" where
  "patternRecognitionPrediction data patternLength =
     (if length data < patternLength * 2 then Inr BIG
      else
        let recentPattern = map outcome (slice 0 patternLength data)
        in case foldl (scanStep data patternLength recentPattern) (Inr (0, 0))
                  [patternLength..<min (length data) 50] of
             Inl e \<Rightarrow> Inl e
           | Inr (bigPatterns, smallPatterns) \<Rightarrow>
               if bigPatterns + smallPatterns = 0
               then Inr (trendFollowingPrediction data 5 (Fin (3 / 10)))
               else Inr (if smallPatterns < bigPatterns then BIG else SMALL))"

definition calculateEMA :: "jsnum list \<Rightarrow> jsnum \<Rightarrow> jsnum" where
  "calculateEMA numbers alpha =
     foldl (\<lambda>ema i. jadd (jmul alpha (elem numbers (int i))) (jmul (jsub (Fin 1) alpha) ema))
       (elem numbers 0) [1..<length numbers]"

text \<open>The loop of \<open>calculateRSI\<close>, on the accumulators \<open>(gains, losses)\<close>.\<close>

definition rsiStep :: "jsnum list \<Rightarrow> jsnum \<times> jsnum \<Rightarrow> nat \<Rightarrow> jsnum \<times> jsnum" where
  "rsiStep numbers acc i =
     (case acc of (gains, losses) \<Rightarrow>
        let change = jsub (elem numbers (int i - 1)) (elem numbers (int i))
        in if jgt change (Fin 0) then (jadd gains change, losses)
           else (gains, jadd losses (jabs change)))"

definition rsiSums :: "jsnum list \<Rightarrow> nat \<Rightarrow> jsnum \<times> jsnum" where
  "rsiSums numbers period = foldl (rsiStep numbers) (Fin 0, Fin 0) [1..<period + 1]"

definition calculateRSI :: "jsnum list \<Rightarrow> nat \<Rightarrow> jsnum" where
  "calculateRSI numbers period =
     (if length numbers < period + 1 then Fin 50
      else
        case rsiSums numbers period of (gains, losses) \<Rightarrow>
          let avgGain = jdiv gains (Fin (real period));
              avgLoss = jdiv losses (Fin (real period));
              rs = jdiv avgGain avgLoss
          in jsub (Fin 100) (jdiv (Fin 100) (jadd (Fin 1) rs)))"

definition fibonacciLevel :: "jsnum list \<Rightarrow> jsnum" where
  "fibonacciLevel numbers =
     (let high = foldl jmax NInf numbers;
          low = foldl jmin PInf numbers;
          current = elem numbers 0;
          range = jsub high low
      in if range = Fin 0 then Fin (1 / 2)
         else jdiv (jsub current low) range)"

definition bollingerPosition :: "jsnum list \<Rightarrow> nat \<Rightarrow> jsnum \<Rightarrow> error + jsnum" where
  "bollingerPosition numbers period stdDev =
     (if length numbers < period then Inr (Fin 0)
      else
        let slice_v = slice 0 period numbers;
            mean_v = mean slice_v
        in case std slice_v of
             Inl e \<Rightarrow> Inl e
           | Inr std_v \<Rightarrow>
               let upperBand = jadd mean_v (jmul stdDev std_v);
                   lowerBand = jsub mean_v (jmul stdDev std_v);
                   current = elem numbers 0
               in if jgt current upperBand then Inr (Fin 1)
                  else if jlt current lowerBand then Inr (Fin (- 1))
                  else Inr (jdiv (jsub current mean_v) (jsub upperBand mean_v)))"

definition statisticalPrediction :: "DrawRecord list \<Rightarrow> nat \<Rightarrow> error + outcome" where
  "statisticalPrediction data method =
     (let numbers = map num (slice 0 20 data)
      in if method = 0 then
           (let ema = calculateEMA numbers (Fin (3 / 10))
            in Inr (if jgt (elem numbers 0) ema then BIG else SMALL))
         else if method = 1 then
           (let rsi = calculateRSI numbers 14
            in Inr (if jgt rsi (Fin 50) then BIG else SMALL))
         else if method = 2 then
           (let fibLevel = fibonacciLevel numbers
            in Inr (if jgt fibLevel (Fin (1 / 2)) then BIG else SMALL))
         else if method = 3 then
           (case bollingerPosition numbers 20 (Fin 2) of
              Inl e \<Rightarrow> Inl e
            | Inr bbPosition \<Rightarrow> Inr (if jgt bbPosition (Fin 0) then BIG else SMALL))
         else Inr BIG)"

section \<open>Construction of the population\<close>

text \<open>
  Each \<open>create...Models(count)\<close> pushes one model for every \<open>i\<close> from 0 up to
  \<open>count - 1\<close>, in that order.
\<close>

definition createTrendModels :: "nat \<Rightarrow> Model list" where
  "createTrendModels count =
     map (\<lambda>i.
        let windowSize = 5 + (i mod 15);
            threshold = jadd (Fin (1 / 2)) (jmul (Fin (real i)) (Fin (1 / 100)))
        in \<lparr>mtype = TREND_FOLLOWING,
            mid = ''TREND_'' @ show_nat i,
            weight = jdiv (Fin (4 / 10)) (Fin (real count)),
            params = TrendParams windowSize threshold,
            predict = (\<lambda>data. Inr (trendFollowingPrediction data windowSize threshold))\<rparr>)
       [0..<count]"

definition createMeanReversionModels :: "nat \<Rightarrow> Model list" where
  "createMeanReversionModels count =
     map (\<lambda>i.
        let lookback = 10 + (i mod 20);
            deviation = jadd (Fin 1) (jmul (Fin (real i)) (Fin (5 / 100)))
        in \<lparr>mtype = MEAN_REVERSION,
            mid = ''MR_'' @ show_nat i,
            weight = jdiv (Fin (25 / 100)) (Fin (real count)),
            params = MeanReversionParams lookback deviation,
            predict = (\<lambda>data. meanReversionPrediction data lookback deviation)\<rparr>)
       [0..<count]"

definition createPatternModels :: "nat \<Rightarrow> Model list" where
  "createPatternModels count =
     map (\<lambda>i.
        let patternLength = 3 + (i mod 7);
            confidence = jadd (Fin (6 / 10)) (jmul (Fin (real i)) (Fin (2 / 100)))
        in \<lparr>mtype = PATTERN_RECOGNITION,
            mid = ''PATTERN_'' @ show_nat i,
            weight = jdiv (Fin (2 / 10)) (Fin (real count)),
            params = PatternParams patternLength confidence,
            predict = (\<lambda>data. patternRecognitionPrediction data patternLength)\<rparr>)
       [0..<count]"

definition createStatisticalModels :: "nat \<Rightarrow> Model list" where
  "createStatisticalModels count =
     map (\<lambda>i.
        let method = i mod 4
        in \<lparr>mtype = STATISTICAL,
            mid = ''STAT_'' @ show_nat i,
            weight = jdiv (Fin (15 / 100)) (Fin (real count)),
            params = StatisticalParams method,
            predict = (\<lambda>data. statisticalPrediction data method)\<rparr>)
       [0..<count]"

definition initializeModels :: "Model list" where
  "initializeModels =
     createTrendModels 48 @ createMeanReversionModels 30 @
     createPatternModels 24 @ createStatisticalModels 18"

section \<open>Trend and stake\<close>

datatype direction = NEUTRAL | UPWARD | DOWNWARD

record Trend =
  direction :: direction
  strength :: jsnum

definition analyzeTrend :: "jsnum list \<Rightarrow> Trend" where
  "analyzeTrend numbers =
     (if length numbers < 10 then \<lparr>direction = NEUTRAL, strength = Fin 0\<rparr>
      else
        let shortTerm = mean (slice 0 5 numbers);
            mediumTerm = mean (slice 0 15 numbers);
            longTerm = mean (slice 0 30 numbers)
        in if jgt shortTerm mediumTerm \<and> jgt mediumTerm longTerm
           then \<lparr>direction = UPWARD,
                 strength = jabs (jdiv (jsub shortTerm longTerm) longTerm)\<rparr>
           else if jlt shortTerm mediumTerm \<and> jlt mediumTerm longTerm
           then \<lparr>direction = DOWNWARD,
                 strength = jabs (jdiv (jsub longTerm shortTerm) longTerm)\<rparr>
           else \<lparr>direction = NEUTRAL, strength = jabs (Fin 0)\<rparr>)"

record Stake =
  amount :: numstr
  level :: string
  risk :: string

definition calculateStake :: "jsnum \<Rightarrow> jsnum \<Rightarrow> Stake" where
  "calculateStake confidence trendStrength =
     (let baseStake = Fin 1;
          confidenceMultiplier = jdiv confidence (Fin 100);
          trendMultiplier = jadd (Fin 1) (jmul trendStrength (Fin 2));
          stake = jmul (jmul baseStake confidenceMultiplier) trendMultiplier
      in if jgt confidence (Fin 75) \<and> jgt trendStrength (Fin (1 / 10))
         then \<lparr>amount = toFixed2 stake, level = ''HIGH_CONFIDENCE'', risk = ''LOW''\<rparr>
         else if jgt confidence (Fin 65)
         then \<lparr>amount = toFixed2 (jmul stake (Fin (7 / 10))), level = ''MEDIUM'',
               risk = ''MEDIUM''\<rparr>
         else \<lparr>amount = toFixed2 (jmul stake (Fin (3 / 10))), level = ''LOW'',
               risk = ''HIGH''\<rparr>)"

text \<open>
  The share of the stake that a tier pays out, as the specification words the tiers for
  finite inputs: the full stake, 70% of it, or 30% of it.
\<close>

definition tierShare :: "real \<Rightarrow> real \<Rightarrow> real" where
  "tierShare c t = (if 75 < c \<and> 1 / 10 < t then 1 else if 65 < c then 7 / 10 else 3 / 10)"

section \<open>The ensemble aggregator\<close>

record Prediction =
  p_modelId :: string
  p_prediction :: outcome
  p_weight :: jsnum
  p_type :: family

text \<open>
  Every model is run on the history; the first one that throws rejects the whole call.
\<close>

fun runModels :: "Model list \<Rightarrow> DrawRecord list \<Rightarrow> error + Prediction list" where
  "runModels [] historicalData = Inr []"
| "runModels (model # rest) historicalData =
     (case predict model historicalData of
        Inl e \<Rightarrow> Inl e
      | Inr v \<Rightarrow>
          (case runModels rest historicalData of
             Inl e \<Rightarrow> Inl e
           | Inr ps \<Rightarrow>
               Inr (\<lparr>p_modelId = mid model, p_prediction = v, p_weight = weight model,
                      p_type = mtype model\<rparr> # ps)))"

text \<open>The body of the \<open>forEach\<close> over the predictions, on \<open>(bigVotes, smallVotes)\<close>.\<close>

definition countVote :: "jsnum \<times> jsnum \<Rightarrow> Prediction \<Rightarrow> jsnum \<times> jsnum" where
  "countVote acc p =
     (case acc of (bigVotes, smallVotes) \<Rightarrow>
        (case p_prediction p of
           BIG \<Rightarrow> (jadd bigVotes (p_weight p), smallVotes)
         | SMALL \<Rightarrow> (bigVotes, jadd smallVotes (p_weight p))))"

definition tallyVotes :: "Prediction list \<Rightarrow> jsnum \<times> jsnum" where
  "tallyVotes predictions = foldl countVote (Fin 0, Fin 0) predictions"

text \<open>\<open>Math.max(bigVotes, smallVotes) / totalVotes * 100\<close>.\<close>

definition voteConfidence :: "jsnum \<times> jsnum \<Rightarrow> jsnum" where
  "voteConfidence votes =
     (case votes of (bigVotes, smallVotes) \<Rightarrow>
        let totalVotes = jadd bigVotes smallVotes
        in jmul (jdiv (jmax bigVotes smallVotes) totalVotes) (Fin 100))"

record Breakdown =
  bd_bigVotes :: numstr
  bd_smallVotes :: numstr
  activeModels :: nat

text \<open>
  The result of a prediction. The two vote fields of the breakdown are the \<open>toFixed(2)\<close>
  strings of the votes in percent, each followed by a percent sign; \<open>nextIssueTime\<close>,
  which reads the clock, is left out.
\<close>

record PredictionResult =
  r_outcome :: outcome
  r_confidence :: numstr
  modelCount :: nat
  trendDirection :: direction
  trendStrength :: jsnum
  suggestedStake :: Stake
  modelBreakdown :: Breakdown

text \<open>\<open>predictNextOutcome\<close>, with \<open>this.models\<close> as its first argument.\<close>

definition predictNextOutcome :: "Model list \<Rightarrow> DrawRecord list \<Rightarrow> error + PredictionResult" where
  "predictNextOutcome models historicalData =
     (let numbers = map num historicalData
      in case runModels models historicalData of
           Inl e \<Rightarrow> Inl e
         | Inr predictions \<Rightarrow>
             (case tallyVotes predictions of (bigVotes, smallVotes) \<Rightarrow>
                let confidence = voteConfidence (bigVotes, smallVotes);
                    outcome_v = (if jgt bigVotes smallVotes then BIG else SMALL);
                    trend = analyzeTrend numbers;
                    suggestedStake_v = calculateStake confidence (strength trend)
                in Inr \<lparr>r_outcome = outcome_v,
                        r_confidence = toFixed2 confidence,
                        modelCount = length models,
                        trendDirection = direction trend,
                        trendStrength = strength trend,
                        suggestedStake = suggestedStake_v,
                        modelBreakdown =
                          \<lparr>bd_bigVotes = toFixed2 (jmul bigVotes (Fin 100)),
                           bd_smallVotes = toFixed2 (jmul smallVotes (Fin 100)),
                           activeModels = length predictions\<rparr>\<rparr>))"

section \<open>Notions of the specification\<close>

text \<open>
  The sum of the weights of a list of models, added in list order, the models of one
  family, and "equal within a tolerance" for numbers: only finite numbers are within a
  tolerance of each other.
\<close>

definition weightSum :: "Model list \<Rightarrow> jsnum" where
  "weightSum models = foldl jadd (Fin 0) (map weight models)"

definition ofFamily :: "family \<Rightarrow> Model list \<Rightarrow> Model list" where
  "ofFamily f models = filter (\<lambda>m. mtype m = f) models"

fun approxEq :: "real \<Rightarrow> jsnum \<Rightarrow> jsnum \<Rightarrow> bool" where
  "approxEq tol (Fin a) (Fin b) = (\<bar>a - b\<bar> \<le> tol)"
| "approxEq tol x y = False"

section \<open>Arithmetic of the model\<close>

lemma foldl_jadd_Fin: "foldl jadd (Fin a) (map Fin xs) = Fin (a + sum_list xs)"
  by (induction xs arbitrary: a) (simp_all add: add.assoc)

lemma foldl_jadd_replicate: "foldl jadd (Fin a) (replicate n (Fin w)) = Fin (a + real n * w)"
proof -
  have "replicate n (Fin w) = map Fin (replicate n w)" by simp
  then show ?thesis by (simp only: foldl_jadd_Fin sum_list_replicate)
qed

lemma mean_Fin: "xs \<noteq> [] \<Longrightarrow> mean (map Fin xs) = Fin (sum_list xs / real (length xs))"
  by (cases xs) (simp_all add: mean_def foldl_jadd_Fin)

section \<open>The stake calculator\<close>

text \<open>
  The amount is the \<open>toFixed(2)\<close> string of the tiered stake. Its last digit depends on
  how the product is rounded, so the amount is stated up to one hundredth: the printed
  number differs from the tiered stake by at most 0.01.
\<close>

lemma fixed2_near:
  assumes "0 \<le> x" and "x < 10 ^ 21"
  shows "\<exists>n. toFixed2 (Fin x) = Fixed2 False n \<and> \<bar>real n / 100 - x\<bar> \<le> 1 / 100"
proof -
  let ?k = "\<lfloor>x * 100 + 1 / 2\<rfloor>"
  have k0: "0 \<le> ?k" using assms(1) by simp
  have "real_of_int ?k \<le> x * 100 + 1 / 2" "x * 100 + 1 / 2 < real_of_int ?k + 1"
    by linarith+
  then have "\<bar>real_of_int ?k - x * 100\<bar> \<le> 1" by linarith
  moreover have "real (nat ?k) = real_of_int ?k" using k0 by simp
  ultimately have "\<bar>real (nat ?k) / 100 - x\<bar> \<le> 1 / 100" by (simp add: field_simps)
  moreover have "toFixed2 (Fin x) = Fixed2 False (nat ?k)"
    using assms by simp
  ultimately show ?thesis by blast
qed

lemma stake_amount_near:
  assumes c: "0 < c" "c \<le> 100" and t: "0 \<le> t" "t \<le> 1000"
  shows "\<exists>n. amount (calculateStake (Fin c) (Fin t)) = Fixed2 False n
     \<and> \<bar>real n / 100 - tierShare c t * (1 * (c / 100) * (1 + 2 * t))\<bar> \<le> 1 / 100"
proof -
  let ?s = "1 * (c / 100) * (1 + 2 * t)"
  have s0: "0 \<le> ?s" using c t by simp
  have "c / 100 \<le> 1" using c by simp
  moreover have "1 + 2 * t \<le> 2001" using t by simp
  ultimately have "(c / 100) * (1 + 2 * t) \<le> 1 * 2001"
    using c t by (intro mult_mono) simp_all
  then have s1: "?s \<le> 2001" by simp
  have sh: "0 \<le> tierShare c t" "tierShare c t \<le> 1" by (simp_all add: tierShare_def)
  have x0: "0 \<le> tierShare c t * ?s" by (rule mult_nonneg_nonneg [OF sh(1) s0])
  have "tierShare c t * ?s \<le> 1 * 2001" by (rule mult_mono [OF sh(2) s1]) (use s0 in simp_all)
  then have x1: "tierShare c t * ?s < 10 ^ 21" by simp
  have "amount (calculateStake (Fin c) (Fin t)) = toFixed2 (Fin (tierShare c t * ?s))"
    by (simp add: calculateStake_def tierShare_def Let_def mult.commute)
  with fixed2_near [OF x0 x1] show ?thesis by simp
qed

text \<open>
  Claim C6. For all inputs \<open>calculateStake\<close> tiers the stake
  \<open>1 \<times> (confidence / 100) \<times> (1 + 2 \<times> trendStrength)\<close>: confidence above 75 with
  trend strength above 0.1 gives level HIGH_CONFIDENCE and risk LOW; otherwise confidence
  above 65 gives level MEDIUM and risk MEDIUM; otherwise level LOW and risk HIGH. For a
  confidence in (0, 100] and a trend strength in [0, 1000] the amount is a decimal string
  within 0.01 of the full stake, of 70% of it, or of 30% of it, by tier. Confidence 80
  with trend strength 0.2 is HIGH_CONFIDENCE/LOW (amount "1.12"), confidence 70 with
  trend strength 0 is MEDIUM (amount "0.49"), and confidence 40 is LOW/HIGH whatever
  the trend strength.
\<close>

theorem calculateStake_tiers:
  "level (calculateStake c t) =
     (if jgt c (Fin 75) \<and> jgt t (Fin (1 / 10)) then ''HIGH_CONFIDENCE''
      else if jgt c (Fin 65) then ''MEDIUM'' else ''LOW'')
   \<and> risk (calculateStake c t) =
     (if jgt c (Fin 75) \<and> jgt t (Fin (1 / 10)) then ''LOW''
      else if jgt c (Fin 65) then ''MEDIUM'' else ''HIGH'')
   \<and> (0 < x \<and> x \<le> 100 \<and> 0 \<le> y \<and> y \<le> 1000 \<longrightarrow>
        (\<exists>n. amount (calculateStake (Fin x) (Fin y)) = Fixed2 False n
           \<and> \<bar>real n / 100 - tierShare x y * (1 * (x / 100) * (1 + 2 * y))\<bar> \<le> 1 / 100))
   \<and> calculateStake (Fin 80) (Fin (2 / 10)) =
       \<lparr>amount = Fixed2 False 112, level = ''HIGH_CONFIDENCE'', risk = ''LOW''\<rparr>
   \<and> calculateStake (Fin 70) (Fin 0) =
       \<lparr>amount = Fixed2 False 49, level = ''MEDIUM'', risk = ''MEDIUM''\<rparr>
   \<and> level (calculateStake (Fin 40) t) = ''LOW'' \<and> risk (calculateStake (Fin 40) t) = ''HIGH''"
proof -
  have lv: "level (calculateStake c t) =
     (if jgt c (Fin 75) \<and> jgt t (Fin (1 / 10)) then ''HIGH_CONFIDENCE''
      else if jgt c (Fin 65) then ''MEDIUM'' else ''LOW'')"
    by (simp add: calculateStake_def Let_def)
  have rk: "risk (calculateStake c t) =
     (if jgt c (Fin 75) \<and> jgt t (Fin (1 / 10)) then ''LOW''
      else if jgt c (Fin 65) then ''MEDIUM'' else ''HIGH'')"
    by (simp add: calculateStake_def Let_def)
  have am: "0 < x \<and> x \<le> 100 \<and> 0 \<le> y \<and> y \<le> 1000 \<longrightarrow>
        (\<exists>n. amount (calculateStake (Fin x) (Fin y)) = Fixed2 False n
           \<and> \<bar>real n / 100 - tierShare x y * (1 * (x / 100) * (1 + 2 * y))\<bar> \<le> 1 / 100)"
    using stake_amount_near [of x y] by blast
  have high: "calculateStake (Fin 80) (Fin (2 / 10)) =
       \<lparr>amount = Fixed2 False 112, level = ''HIGH_CONFIDENCE'', risk = ''LOW''\<rparr>"
    by (simp add: calculateStake_def Let_def)
  have medium: "calculateStake (Fin 70) (Fin 0) =
       \<lparr>amount = Fixed2 False 49, level = ''MEDIUM'', risk = ''MEDIUM''\<rparr>"
    by (simp add: calculateStake_def Let_def)
  have low: "level (calculateStake (Fin 40) t) = ''LOW'' \<and> risk (calculateStake (Fin 40) t) = ''HIGH''"
    by (simp add: calculateStake_def Let_def)
  show ?thesis using lv rk am high medium low by blast
qed

theorem calculateStake_tiers_witness:
  "(0 :: real) < 75 \<and> (75 :: real) \<le> 100
   \<and> (\<exists>n. amount (calculateStake (Fin 75) (Fin 0)) = Fixed2 False n
         \<and> \<bar>real n / 100 - 7 / 10 * (75 / 100)\<bar> \<le> 1 / 100)
   \<and> level (calculateStake (Fin 75) (Fin 0)) = ''MEDIUM''"
  using calculateStake_tiers [of "Fin 75" "Fin 0" 75 0]
  by (simp add: tierShare_def)

section \<open>The trend-following model\<close>

lemma ten_records:
  assumes "10 \<le> length (xs :: 'a list)"
  shows "\<exists>a b c d e f g h i j rest. xs = a # b # c # d # e # f # g # h # i # j # rest"
proof -
  have "Suc (Suc (Suc (Suc (Suc (Suc (Suc (Suc (Suc (Suc 0))))))))) \<le> length xs"
    using assms by simp
  then show ?thesis
    by (auto simp add: Suc_le_length_iff)
qed

lemma trend_decision:
  assumes len: "windowSize + 1 \<le> length data"
    and r: "mean (map num (slice 0 windowSize data)) = Fin r"
    and p: "mean (map num (slice windowSize (windowSize * 2) data)) = Fin p"
    and pos: "0 < p"
    and first: "elem (map num (slice 0 windowSize data)) 0 = Fin x0"
    and final: "elem (map num (slice 0 windowSize data))
                  (int (length (map num (slice 0 windowSize data))) - 1) = Fin xl"
  shows "trendFollowingPrediction data windowSize threshold =
    (if jgt (Fin \<bar>(r - p) / p\<bar>) threshold then (if p < r then BIG else SMALL)
     else if xl < x0 then BIG else SMALL)"
proof -
  have ts: "jdiv (jsub (Fin r) (Fin p)) (Fin p) = Fin ((r - p) / p)"
    using pos by (simp add: jsub_def)
  have sign: "jgt (Fin ((r - p) / p)) (Fin 0) = (p < r)"
    using pos by (simp add: zero_less_divide_iff)
  have mom: "jgt (jsub (Fin x0) (Fin xl)) (Fin 0) = (xl < x0)"
    by (simp add: jsub_def)
  have "\<not> length data < windowSize + 1" using len by simp
  then show ?thesis
    unfolding trendFollowingPrediction_def Let_def r p first final ts
    by (simp only: if_False jabs.simps sign mom)
qed

lemma window5_values:
  fixes a b c d e f g h i j :: DrawRecord
  assumes data: "data = a # b # c # d # e # f # g # h # i # j # rest"
  shows "mean (map num (slice 0 5 data)) =
           Fin (real_of_int (number a + number b + number c + number d + number e) / 5)"
    and "mean (map num (slice 5 (5 * 2) data)) =
           Fin (real_of_int (number f + number g + number h + number i + number j) / 5)"
    and "elem (map num (slice 0 5 data)) 0 = Fin (real_of_int (number a))"
    and "elem (map num (slice 0 5 data)) (int (length (map num (slice 0 5 data))) - 1) =
           Fin (real_of_int (number e))"
  unfolding data by (simp_all add: slice_def mean_def num_def elem_def)

text \<open>
  Claim C8, as stated: a trend-following model with window 5 returns BIG on every
  monotonically increasing sequence of 20 values supplied as the number projection. It
  does not: the projection is newest first, so on the projection 1, 2, ..., 20 the newest
  five numbers average 3 against 8 for the five before them, the relative difference is
  \<open>-0.625\<close>, beyond the threshold 0.5 of the first model of the population, and the vote is SMALL.
\<close>

theorem trend_increasing_projection_counterexample:
  "length (map number (map drawRecord [1, 2, 3, 4, 5, 6, 7, 8, 9, 10, 11, 12, 13, 14, 15, 16, 17, 18, 19, 20])) = 20
   \<and> sorted_wrt (<) (map number (map drawRecord [1, 2, 3, 4, 5, 6, 7, 8, 9, 10, 11, 12, 13, 14, 15, 16, 17, 18, 19, 20]))
   \<and> trendFollowingPrediction (map drawRecord [1, 2, 3, 4, 5, 6, 7, 8, 9, 10, 11, 12, 13, 14, 15, 16, 17, 18, 19, 20]) 5 (Fin (1 / 2)) = SMALL
   \<and> params (hd (createTrendModels 48)) = TrendParams 5 (Fin (1 / 2))
   \<and> predict (hd (createTrendModels 48)) (map drawRecord [1, 2, 3, 4, 5, 6, 7, 8, 9, 10, 11, 12, 13, 14, 15, 16, 17, 18, 19, 20]) = Inr SMALL"
  by code_simp

text \<open>
  Claim C8, amended. For 20 records with numbers that are not negative and every
  threshold: when the numbers rise strictly over time, so that the newest-first number
  projection is strictly decreasing, a trend-following model with window 5 returns BIG;
  when the projection is strictly increasing (the numbers fall over time), it returns
  SMALL.
\<close>

theorem trend_window5_by_direction:
  assumes len: "length (map number data) = 20"
    and nonneg: "list_all (\<lambda>d. 0 \<le> number d) data"
  shows "(sorted_wrt (>) (map number data) \<longrightarrow> trendFollowingPrediction data 5 threshold = BIG)
       \<and> (sorted_wrt (<) (map number data) \<longrightarrow> trendFollowingPrediction data 5 threshold = SMALL)"
proof -
  from len have "10 \<le> length data" by simp
  from ten_records [OF this] obtain a b c d e f g h i j rest
    where data: "data = a # b # c # d # e # f # g # h # i # j # rest" by blast
  have l: "5 + 1 \<le> length data" using len by simp
  note v = window5_values [OF data]
  let ?r = "real_of_int (number a + number b + number c + number d + number e) / 5"
  let ?p = "real_of_int (number f + number g + number h + number i + number j) / 5"
  have n0: "0 \<le> number a" "0 \<le> number j" using nonneg by (simp_all add: data)
  have down: "trendFollowingPrediction data 5 threshold = BIG" if s: "sorted_wrt (>) (map number data)"
  proof -
    from s have ch: "number a > number b" "number b > number c" "number c > number d" "number d > number e"
      "number e > number f" "number f > number g" "number g > number h" "number h > number i" "number i > number j"
      by (simp_all add: data)
    have pos: "0 < ?p" using ch n0 by simp
    have rp: "?p < ?r" using ch by simp
    have ea: "real_of_int (number e) < real_of_int (number a)" using ch by simp
    show ?thesis
      unfolding trend_decision [OF l v(1) v(2) pos v(3) v(4)] using rp ea by simp
  qed
  have up: "trendFollowingPrediction data 5 threshold = SMALL" if s: "sorted_wrt (<) (map number data)"
  proof -
    from s have ch: "number a < number b" "number b < number c" "number c < number d" "number d < number e"
      "number e < number f" "number f < number g" "number g < number h" "number h < number i" "number i < number j"
      by (simp_all add: data)
    have pos: "0 < ?p" using ch n0 by simp
    have rp: "\<not> ?p < ?r" using ch by simp
    have ea: "\<not> real_of_int (number e) < real_of_int (number a)" using ch by simp
    show ?thesis
      unfolding trend_decision [OF l v(1) v(2) pos v(3) v(4)] using rp ea by simp
  qed
  from down up show ?thesis by blast
qed

theorem trend_window5_by_direction_witness:
  "trendFollowingPrediction (map drawRecord [19, 18, 17, 16, 15, 14, 13, 12, 11, 10, 9, 8, 7, 6, 5, 4, 3, 2, 1, 0]) 5 (Fin (1 / 2)) = BIG
   \<and> trendFollowingPrediction (map drawRecord [0, 1, 2, 3, 4, 5, 6, 7, 8, 9, 10, 11, 12, 13, 14, 15, 16, 17, 18, 19]) 5 (Fin (1 / 2)) = SMALL"
proof -
  let ?down = "map drawRecord [19, 18, 17, 16, 15, 14, 13, 12, 11, 10, 9, 8, 7, 6, 5, 4, 3, 2, 1, 0]"
  let ?up = "map drawRecord [0, 1, 2, 3, 4, 5, 6, 7, 8, 9, 10, 11, 12, 13, 14, 15, 16, 17, 18, 19]"
  have d: "length (map number ?down) = 20" "list_all (\<lambda>d. 0 \<le> number d) ?down"
    "sorted_wrt (>) (map number ?down)"
    by code_simp+
  have u: "length (map number ?up) = 20" "list_all (\<lambda>d. 0 \<le> number d) ?up"
    "sorted_wrt (<) (map number ?up)"
    by code_simp+
  show ?thesis
    using trend_window5_by_direction [OF d(1) d(2), of "Fin (1 / 2)"] d(3)
      trend_window5_by_direction [OF u(1) u(2), of "Fin (1 / 2)"] u(3)
    by blast
qed

section \<open>The Bollinger model on short histories\<close>

text \<open>
  Claim C10. When the number projection of the history has fewer than 20 entries,
  \<open>bollingerPosition\<close> returns 0 on the slice, the Bollinger method (method 3) of
  \<open>statisticalPrediction\<close> votes SMALL, and so does every model of the population that
  carries method 3.
\<close>

theorem bollinger_short_history_small:
  assumes "length (map number data) < 20"
  shows "bollingerPosition (map num (slice 0 20 data)) 20 (Fin 2) = Inr (Fin 0)
     \<and> statisticalPrediction data 3 = Inr SMALL
     \<and> list_all (\<lambda>m. params m = StatisticalParams 3 \<longrightarrow> predict m data = Inr SMALL)
           initializeModels"
proof -
  have b: "bollingerPosition (map num (slice 0 20 data)) 20 (Fin 2) = Inr (Fin 0)"
    using assms by (simp add: bollingerPosition_def slice_def)
  have s: "statisticalPrediction data 3 = Inr SMALL"
    using b by (simp add: statisticalPrediction_def)
  have "list_all (\<lambda>m. params m = StatisticalParams 3 \<longrightarrow> predict m data = Inr SMALL)
           initializeModels"
    unfolding initializeModels_def createTrendModels_def createMeanReversionModels_def
      createPatternModels_def createStatisticalModels_def Let_def list_all_append list.pred_map
    by (simp add: list_all_iff s)
  with b s show ?thesis by blast
qed

theorem bollinger_short_history_small_witness:
  "length (map number [drawRecord 7, drawRecord 61]) < 20
   \<and> statisticalPrediction [drawRecord 7, drawRecord 61] 3 = Inr SMALL"
  using bollinger_short_history_small [of "[drawRecord 7, drawRecord 61]"] by simp

section \<open>The mean-reversion model on a flat history\<close>

lemma mean_replicate: "0 < n \<Longrightarrow> mean (replicate n (Fin c)) = Fin c"
proof -
  assume n: "0 < n"
  have "replicate n (Fin c) = map Fin (replicate n c)" by simp
  then have "mean (replicate n (Fin c)) = Fin (sum_list (replicate n c) / real (length (replicate n c)))"
    using n mean_Fin [of "replicate n c"] by simp
  then show ?thesis using n by (simp add: sum_list_replicate)
qed

lemma foldl_jadd_zeros: "foldl jadd (Fin 0) (replicate k (Fin 0)) = Fin 0"
  by (induction k) simp_all

lemma variance_replicate: "0 < n \<Longrightarrow> variance (replicate n (Fin c)) = Fin 0"
proof -
  assume n: "0 < n"
  then obtain k where k: "n = Suc k" by (cases n) auto
  have m: "jdiv (foldl jadd (Fin c) (replicate k (Fin c))) (Fin (real (Suc k))) = Fin c"
    using mean_replicate [of "Suc k" c] by (simp add: mean_def)
  show ?thesis
    unfolding k variance_def
    by (simp add: m Let_def jsub_def foldl_jadd_zeros del: of_nat_Suc)
qed

lemma std_replicate: "0 < n \<Longrightarrow> std (replicate n (Fin c)) = Inr (Fin 0)"
  by (simp add: std_def variance_replicate)

lemma flat_numbers:
  assumes "list_all (\<lambda>d. number d = c) data"
  shows "map num data = replicate (length data) (Fin (real_of_int c))"
  using assms by (induction data) (simp_all add: num_def)

text \<open>
  Claim C9. On a flat history (every number equal to \<open>c\<close>) with at least \<open>lookback\<close>
  records, for every lookback of at least one record (the population uses 10 to 29) and
  every deviation, \<open>meanReversionPrediction\<close> does not raise although the standard
  deviation is zero: the z-score is \<open>0 / 0 = NaN\<close>, both comparisons with the deviation
  fail, the short-term mean equals the mean, and the result is always BIG.
\<close>

theorem meanReversion_flat_history:
  assumes flat: "list_all (\<lambda>d. number d = c) data"
    and lookback: "1 \<le> lookback"
    and len: "lookback \<le> length data"
  shows "meanReversionPrediction data lookback deviation = Inr BIG"
proof -
  have "list_all (\<lambda>d. number d = c) (slice 0 lookback data)"
    using flat by (auto simp add: slice_def list_all_iff dest: in_set_takeD)
  from flat_numbers [OF this]
  have numbers: "map num (slice 0 lookback data) = replicate lookback (Fin (real_of_int c))"
    using len by (simp add: slice_def)
  have pos: "0 < lookback" using lookback by simp
  have short: "slice 0 3 (replicate lookback (Fin (real_of_int c))) =
      replicate (min 3 lookback) (Fin (real_of_int c))"
    by (simp add: slice_def min.commute)
  have pos3: "0 < min 3 lookback" using pos by simp
  have first: "elem (replicate lookback (Fin (real_of_int c))) 0 = Fin (real_of_int c)"
    using pos by (simp add: elem_def)
  show ?thesis
    unfolding meanReversionPrediction_def numbers Let_def short
      mean_replicate [OF pos] mean_replicate [OF pos3] std_replicate [OF pos] first
    by (simp add: jsub_def jlt_def)
qed

theorem meanReversion_flat_history_witness:
  "meanReversionPrediction (replicate 12 (drawRecord 42)) 10 (Fin 1) = Inr BIG"
proof -
  have "list_all (\<lambda>d. number d = 42) (replicate 12 (drawRecord 42))"
    by (simp add: list_all_iff drawRecord_def)
  from meanReversion_flat_history [OF this, of 10 "Fin 1"] show ?thesis by simp
qed

section \<open>The RSI model with zero average loss\<close>

text \<open>
  Claim C7, as stated: whenever the average loss over the 14 most recent deltas is zero,
  the RSI is treated as maximal and the model votes BIG. It is not so on a flat slice:
  with 15 equal numbers every delta is zero, the average gain and the average loss are
  both zero, the relative strength is \<open>0 / 0 = NaN\<close>, the RSI is NaN, the comparison
  \<open>rsi > 50\<close> fails and the vote is SMALL. No exception is raised.
\<close>

theorem rsi_flat_slice_counterexample:
  "jdiv (snd (rsiSums (map num (slice 0 20 (replicate 15 (drawRecord 5)))) 14)) (Fin 14) = Fin 0
   \<and> calculateRSI (map num (slice 0 20 (replicate 15 (drawRecord 5)))) 14 = NaN
   \<and> statisticalPrediction (replicate 15 (drawRecord 5)) 1 = Inr SMALL"
proof -
  have loss: "jdiv (snd (rsiSums (map num (slice 0 20 (replicate 15 (drawRecord 5)))) 14)) (Fin 14) = Fin 0"
    by code_simp
  have rsi: "calculateRSI (map num (slice 0 20 (replicate 15 (drawRecord 5)))) 14 = NaN"
    by code_simp
  have "statisticalPrediction (replicate 15 (drawRecord 5)) 1 = Inr SMALL"
    unfolding statisticalPrediction_def Let_def rsi by simp
  with loss rsi show ?thesis by blast
qed

text \<open>
  Claim C7, amended. When the average loss over the 14 most recent deltas is zero and the
  average gain is positive, the division gives \<open>Infinity\<close>, the RSI is 100 and the model
  votes BIG; no exception is raised.
\<close>

theorem rsi_zero_loss_with_gain:
  assumes len: "15 \<le> length (map number data)"
    and sums: "rsiSums (map num (slice 0 20 data)) 14 = (gains, losses)"
    and loss: "jdiv losses (Fin 14) = Fin 0"
    and gain: "jgt (jdiv gains (Fin 14)) (Fin 0)"
  shows "calculateRSI (map num (slice 0 20 data)) 14 = Fin 100
     \<and> statisticalPrediction data 1 = Inr BIG"
proof -
  have l: "\<not> length (map num (slice 0 20 data)) < 14 + 1"
    using len by (simp add: slice_def)
  have rs: "jdiv (jdiv gains (Fin 14)) (Fin 0) = PInf"
    using gain by (cases gains) (simp_all split: if_splits)
  have rsi: "calculateRSI (map num (slice 0 20 data)) 14 = Fin 100"
    unfolding calculateRSI_def using l
    by (simp add: sums loss rs Let_def jsub_def)
  then show ?thesis
    by (simp add: statisticalPrediction_def)
qed

theorem rsi_zero_loss_with_gain_witness:
  "statisticalPrediction (map drawRecord [15, 14, 13, 12, 11, 10, 9, 8, 7, 6, 5, 4, 3, 2, 1]) 1 = Inr BIG"
proof -
  let ?d = "map drawRecord [15, 14, 13, 12, 11, 10, 9, 8, 7, 6, 5, 4, 3, 2, 1]"
  have len: "15 \<le> length (map number ?d)" by simp
  have sums: "rsiSums (map num (slice 0 20 ?d)) 14 = (Fin 14, Fin 0)" by code_simp
  have loss: "jdiv (Fin 0) (Fin 14) = Fin 0" by simp
  have gain: "jgt (jdiv (Fin 14) (Fin 14)) (Fin 0)" by simp
  from rsi_zero_loss_with_gain [OF len sums loss gain] show ?thesis by simp
qed

section \<open>The weights of the population\<close>

lemma family_weights:
  "map weight (createTrendModels count) = replicate count (jdiv (Fin (4 / 10)) (Fin (real count)))"
  "map weight (createMeanReversionModels count) = replicate count (jdiv (Fin (25 / 100)) (Fin (real count)))"
  "map weight (createPatternModels count) = replicate count (jdiv (Fin (2 / 10)) (Fin (real count)))"
  "map weight (createStatisticalModels count) = replicate count (jdiv (Fin (15 / 100)) (Fin (real count)))"
  by (simp_all add: createTrendModels_def createMeanReversionModels_def
      createPatternModels_def createStatisticalModels_def Let_def comp_def map_replicate_const)

lemma population_weights: "map weight initializeModels = replicate 120 (Fin (1 / 120))"
proof -
  have "map weight initializeModels =
      replicate 48 (Fin (1 / 120)) @ replicate 30 (Fin (1 / 120)) @
      replicate 24 (Fin (1 / 120)) @ replicate 18 (Fin (1 / 120))"
    by (simp add: initializeModels_def family_weights)
  also have "\<dots> = replicate (48 + 30 + 24 + 18) (Fin (1 / 120))"
    by (simp only: replicate_add append_assoc)
  finally show ?thesis by simp
qed

lemma families:
  "ofFamily TREND_FOLLOWING initializeModels = createTrendModels 48"
  "ofFamily MEAN_REVERSION initializeModels = createMeanReversionModels 30"
  "ofFamily PATTERN_RECOGNITION initializeModels = createPatternModels 24"
  "ofFamily STATISTICAL initializeModels = createStatisticalModels 18"
  by (simp_all add: ofFamily_def initializeModels_def createTrendModels_def
      createMeanReversionModels_def createPatternModels_def createStatisticalModels_def
      Let_def filter_map comp_def)

lemma family_sizes:
  "length (createTrendModels count) = count"
  "length (createMeanReversionModels count) = count"
  "length (createPatternModels count) = count"
  "length (createStatisticalModels count) = count"
  by (simp_all add: createTrendModels_def
      createMeanReversionModels_def createPatternModels_def createStatisticalModels_def)

text \<open>
  The weights a double-precision engine holds are not exactly \<open>1 / 120\<close>: each is the
  rounded quotient of a rounded literal. The margin of the claim is far wider than that:
  any 120 numbers within a relative distance of \<open>2\<^sup>-\<^sup>5\<^sup>0\<close> of \<open>1 / 120\<close> are positive and
  sum to 1 within \<open>10\<^sup>-\<^sup>6\<close>.
\<close>

lemma perturbed_sum:
  fixes ws :: "real list"
  assumes "\<forall>w\<in>set ws. \<bar>w - c\<bar> \<le> d"
  shows "\<bar>sum_list ws - real (length ws) * c\<bar> \<le> real (length ws) * d"
  using assms
proof (induction ws)
  case Nil
  then show ?case by simp
next
  case (Cons w ws)
  then have w: "\<bar>w - c\<bar> \<le> d"
    and ih: "\<bar>sum_list ws - real (length ws) * c\<bar> \<le> real (length ws) * d"
    by simp_all
  have "sum_list (w # ws) - real (length (w # ws)) * c =
      (w - c) + (sum_list ws - real (length ws) * c)"
    by (simp add: algebra_simps)
  then have "\<bar>sum_list (w # ws) - real (length (w # ws)) * c\<bar> \<le>
      \<bar>w - c\<bar> + \<bar>sum_list ws - real (length ws) * c\<bar>"
    by (simp only: abs_triangle_ineq)
  also have "\<dots> \<le> d + real (length ws) * d" using w ih by linarith
  also have "\<dots> = real (length (w # ws)) * d" by (simp add: algebra_simps)
  finally show ?case .
qed

lemma rounded_weights_within_tolerance:
  fixes ws :: "real list"
  assumes len: "length ws = length initializeModels"
    and near: "\<forall>w\<in>set ws. \<bar>w - 1 / 120\<bar> \<le> (1 / 120) / 2 ^ 50"
  shows "\<bar>sum_list ws - 1\<bar> \<le> 1 / 10 ^ 6" and "\<forall>w\<in>set ws. 0 < w"
proof -
  have n: "length ws = 120"
    using len population_weights by (metis length_map length_replicate)
  from perturbed_sum [OF near]
  have "\<bar>sum_list ws - 1\<bar> \<le> 120 * ((1 / 120) / 2 ^ 50)" by (simp add: n)
  also have "\<dots> \<le> 1 / 10 ^ 6" by simp
  finally show "\<bar>sum_list ws - 1\<bar> \<le> 1 / 10 ^ 6" .
  show "\<forall>w\<in>set ws. 0 < w"
  proof
    fix w assume "w \<in> set ws"
    with near have "\<bar>w - 1 / 120\<bar> \<le> (1 / 120) / 2 ^ 50" by blast
    moreover have "(1 / 120) / 2 ^ 50 < (1 / 120 :: real)" by simp
    ultimately show "0 < w" by linarith
  qed
qed

text \<open>
  Claim C4. The population has 120 models, every weight is strictly positive, the weights
  sum to 1.0 within \<open>10\<^sup>-\<^sup>6\<close>, and the 48 trend, 30 mean-reversion, 24 pattern and 18
  statistical models sum to 0.40, 0.25, 0.20 and 0.15, each within \<open>10\<^sup>-\<^sup>6\<close>. (In exact
  arithmetic every weight is \<open>1 / 120\<close> and the sums are exact.)
\<close>

theorem population_weight_shares:
  "length initializeModels = 120
   \<and> list_all (\<lambda>m. jgt (weight m) (Fin 0)) initializeModels
   \<and> approxEq (1 / 10 ^ 6) (weightSum initializeModels) (Fin 1)
   \<and> length (ofFamily TREND_FOLLOWING initializeModels) = 48
   \<and> approxEq (1 / 10 ^ 6) (weightSum (ofFamily TREND_FOLLOWING initializeModels)) (Fin (40 / 100))
   \<and> length (ofFamily MEAN_REVERSION initializeModels) = 30
   \<and> approxEq (1 / 10 ^ 6) (weightSum (ofFamily MEAN_REVERSION initializeModels)) (Fin (25 / 100))
   \<and> length (ofFamily PATTERN_RECOGNITION initializeModels) = 24
   \<and> approxEq (1 / 10 ^ 6) (weightSum (ofFamily PATTERN_RECOGNITION initializeModels)) (Fin (20 / 100))
   \<and> length (ofFamily STATISTICAL initializeModels) = 18
   \<and> approxEq (1 / 10 ^ 6) (weightSum (ofFamily STATISTICAL initializeModels)) (Fin (15 / 100))"
proof -
  have n: "length initializeModels = 120"
    by (simp add: initializeModels_def family_sizes)
  have "\<forall>w\<in>set (map weight initializeModels). jgt w (Fin 0)"
    unfolding population_weights by simp
  then have pos: "list_all (\<lambda>m. jgt (weight m) (Fin 0)) initializeModels"
    by (simp add: list_all_iff)
  have total: "approxEq (1 / 10 ^ 6) (weightSum initializeModels) (Fin 1)"
    unfolding weightSum_def population_weights foldl_jadd_replicate by simp
  have t: "approxEq (1 / 10 ^ 6) (weightSum (ofFamily TREND_FOLLOWING initializeModels)) (Fin (40 / 100))"
    unfolding weightSum_def families family_weights by (simp add: foldl_jadd_replicate)
  have m: "approxEq (1 / 10 ^ 6) (weightSum (ofFamily MEAN_REVERSION initializeModels)) (Fin (25 / 100))"
    unfolding weightSum_def families family_weights by (simp add: foldl_jadd_replicate)
  have p: "approxEq (1 / 10 ^ 6) (weightSum (ofFamily PATTERN_RECOGNITION initializeModels)) (Fin (20 / 100))"
    unfolding weightSum_def families family_weights by (simp add: foldl_jadd_replicate)
  have s: "approxEq (1 / 10 ^ 6) (weightSum (ofFamily STATISTICAL initializeModels)) (Fin (15 / 100))"
    unfolding weightSum_def families family_weights by (simp add: foldl_jadd_replicate)
  show ?thesis
    using n pos total t m p s by (simp add: families family_sizes)
qed

section \<open>Every model of the population votes on a history that is not empty\<close>

lemma std_nonempty: "array \<noteq> [] \<Longrightarrow> std array = Inr (jsqrt (variance array))"
  by (simp add: std_def)

lemma meanReversion_returns:
  assumes "data \<noteq> []" and "0 < lookback"
  shows "\<exists>v. meanReversionPrediction data lookback deviation = Inr v"
proof -
  have "map num (slice 0 lookback data) \<noteq> []"
    using assms by (simp add: slice_def)
  then show ?thesis
    unfolding meanReversionPrediction_def Let_def
    by (simp add: std_nonempty)
qed

lemma scan_returns:
  assumes "list_all (\<lambda>i. 1 \<le> i \<and> i - 1 < length data) is"
  shows "\<exists>acc'. foldl (scanStep data patternLength recentPattern) (Inr acc) is = Inr acc'"
  using assms
proof (induction "is" arbitrary: acc)
  case Nil
  then show ?case by simp
next
  case (Cons i "is")
  obtain b s where acc: "acc = (b, s)" by (cases acc)
  from Cons.prems have i: "1 \<le> i \<and> i - 1 < length data" and rest: "list_all (\<lambda>i. 1 \<le> i \<and> i - 1 < length data) is"
    by simp_all
  have "\<exists>a. scanStep data patternLength recentPattern (Inr acc) i = Inr a"
    unfolding scanStep_def acc Let_def using i by simp
  then obtain a where "scanStep data patternLength recentPattern (Inr acc) i = Inr a" ..
  then show ?case using Cons.IH [OF rest, of a] by simp
qed

lemma patternRecognition_returns:
  assumes "0 < patternLength"
  shows "\<exists>v. patternRecognitionPrediction data patternLength = Inr v"
proof -
  have "list_all (\<lambda>i. 1 \<le> i \<and> i - 1 < length data) [patternLength..<min (length data) 50]"
    using assms by (auto simp add: list_all_iff)
  from scan_returns [OF this, of patternLength "map outcome (slice 0 patternLength data)" "(0, 0)"]
  obtain acc' where "foldl (scanStep data patternLength (map outcome (slice 0 patternLength data)))
       (Inr (0, 0)) [patternLength..<min (length data) 50] = Inr acc'" ..
  then show ?thesis
    unfolding patternRecognitionPrediction_def Let_def
    by (cases acc') simp
qed

lemma bollinger_returns: "\<exists>v. bollingerPosition numbers 20 stdDev = Inr v"
proof (cases "length numbers < 20")
  case True
  then show ?thesis by (simp add: bollingerPosition_def)
next
  case False
  then have "slice 0 20 numbers \<noteq> []" by (auto simp add: slice_def)
  then show ?thesis
    unfolding bollingerPosition_def Let_def using False
    by (simp add: std_nonempty)
qed

lemma statistical_returns: "\<exists>v. statisticalPrediction data method = Inr v"
proof -
  obtain v where "bollingerPosition (map num (slice 0 20 data)) 20 (Fin 2) = Inr v"
    using bollinger_returns by blast
  then show ?thesis
    unfolding statisticalPrediction_def Let_def by simp
qed

lemma population_returns:
  assumes "data \<noteq> []"
  shows "list_all (\<lambda>m. \<exists>v. predict m data = Inr v) initializeModels"
  unfolding initializeModels_def createTrendModels_def createMeanReversionModels_def
    createPatternModels_def createStatisticalModels_def Let_def list_all_append list.pred_map
  by (simp add: list_all_iff meanReversion_returns [OF assms] patternRecognition_returns
      statistical_returns)

lemma runModels_returns:
  assumes "list_all (\<lambda>m. \<exists>v. predict m data = Inr v) models"
  shows "\<exists>ps. runModels models data = Inr ps \<and> map p_weight ps = map weight models"
  using assms
proof (induction models)
  case Nil
  then show ?case by simp
next
  case (Cons m models)
  then obtain v ps where "predict m data = Inr v" "runModels models data = Inr ps"
    "map p_weight ps = map weight models" by auto
  then show ?case by simp
qed

lemma runModels_append:
  "runModels (xs @ ys) h =
     (case runModels xs h of
        Inl e \<Rightarrow> Inl e
      | Inr ps \<Rightarrow> (case runModels ys h of Inl e \<Rightarrow> Inl e | Inr qs \<Rightarrow> Inr (ps @ qs)))"
  by (induction xs) (simp_all split: sum.splits)

lemma tally_fold:
  assumes "list_all (\<lambda>p. p_weight p = Fin w) ps"
  shows "foldl countVote (Fin b, Fin s) ps =
    (Fin (b + w * real (length (filter (\<lambda>p. p_prediction p = BIG) ps))),
     Fin (s + w * real (length (filter (\<lambda>p. p_prediction p = SMALL) ps))))"
  using assms
proof (induction ps arbitrary: b s)
  case Nil
  then show ?case by simp
next
  case (Cons p ps)
  then have w: "p_weight p = Fin w" and rest: "list_all (\<lambda>p. p_weight p = Fin w) ps"
    by simp_all
  show ?case
  proof (cases "p_prediction p")
    case BIG
    then have "countVote (Fin b, Fin s) p = (Fin (b + w), Fin s)"
      by (simp add: countVote_def w)
    then show ?thesis
      using Cons.IH [OF rest, of "b + w" s] BIG by (simp add: algebra_simps)
  next
    case SMALL
    then have "countVote (Fin b, Fin s) p = (Fin b, Fin (s + w))"
      by (simp add: countVote_def w)
    then show ?thesis
      using Cons.IH [OF rest, of b "s + w"] SMALL by (simp add: algebra_simps)
  qed
qed

lemma votes_partition:
  "length (filter (\<lambda>p. p_prediction p = BIG) ps) + length (filter (\<lambda>p. p_prediction p = SMALL) ps)
     = length (ps :: Prediction list)"
proof (induction ps)
  case Nil
  then show ?case by simp
next
  case (Cons p ps)
  then show ?case by (cases "p_prediction p") simp_all
qed

lemma population_tally:
  assumes "data \<noteq> []"
  shows "\<exists>ps k. runModels initializeModels data = Inr ps \<and> length ps = 120 \<and> k \<le> 120
     \<and> tallyVotes ps = (Fin (real k / 120), Fin (real (120 - k) / 120))"
proof -
  from runModels_returns [OF population_returns [OF assms]]
  obtain ps where run: "runModels initializeModels data = Inr ps"
    and w: "map p_weight ps = map weight initializeModels" by blast
  from w have w120: "map p_weight ps = replicate 120 (Fin (1 / 120))"
    by (simp add: population_weights)
  then have len: "length ps = 120"
    by (metis length_map length_replicate)
  have "\<forall>x\<in>set (map p_weight ps). x = Fin (1 / 120)"
    unfolding w120 by simp
  then have all: "list_all (\<lambda>p. p_weight p = Fin (1 / 120)) ps"
    by (simp add: list_all_iff)
  define k where "k = length (filter (\<lambda>p. p_prediction p = BIG) ps)"
  have small: "length (filter (\<lambda>p. p_prediction p = SMALL) ps) = 120 - k"
    using votes_partition [of ps] len by (simp add: k_def)
  have k: "k \<le> 120" using votes_partition [of ps] len by (simp add: k_def)
  have "tallyVotes ps = (Fin (real k / 120), Fin (real (120 - k) / 120))"
    unfolding tallyVotes_def tally_fold [OF all] small k_def [symmetric] by simp
  with run len k show ?thesis by blast
qed

lemma confidence_of_votes:
  assumes "k \<le> 120"
  shows "voteConfidence (Fin (real k / 120), Fin (real (120 - k) / 120)) =
     Fin (real (max k (120 - k)) / 120 * 100)"
proof -
  have one: "real k / 120 + real (120 - k) / 120 = 1"
    using assms by (simp add: of_nat_diff field_simps)
  have mx: "jmax (Fin (real k / 120)) (Fin (real (120 - k) / 120)) = Fin (real (max k (120 - k)) / 120)"
    using assms by (auto simp add: max_def)
  show ?thesis
    unfolding voteConfidence_def by (simp add: Let_def one mx del: jmax.simps)
qed

lemma predict_result:
  assumes run: "runModels models h = Inr ps" and tally: "tallyVotes ps = (b, s)"
  shows "predictNextOutcome models h =
    Inr \<lparr>r_outcome = (if jgt b s then BIG else SMALL),
         r_confidence = toFixed2 (voteConfidence (b, s)),
         modelCount = length models,
         trendDirection = direction (analyzeTrend (map num h)),
         trendStrength = strength (analyzeTrend (map num h)),
         suggestedStake = calculateStake (voteConfidence (b, s)) (strength (analyzeTrend (map num h))),
         modelBreakdown =
           \<lparr>bd_bigVotes = toFixed2 (jmul b (Fin 100)),
            bd_smallVotes = toFixed2 (jmul s (Fin 100)),
            activeModels = length ps\<rparr>\<rparr>"
  by (simp add: predictNextOutcome_def run tally Let_def)

lemma predict_returns:
  assumes "data \<noteq> []"
  shows "\<exists>r. predictNextOutcome initializeModels data = Inr r"
proof -
  from population_tally [OF assms] obtain ps k
    where "runModels initializeModels data = Inr ps"
      and "tallyVotes ps = (Fin (real k / 120), Fin (real (120 - k) / 120))" by blast
  from predict_result [OF this] show ?thesis by blast
qed

section \<open>The empty history\<close>

text \<open>
  On the empty history the 48 trend models vote their default, and the first
  mean-reversion model then calls \<open>math.std\<close> on an empty slice, which throws.
\<close>

lemma runModels_empty_history: "runModels initializeModels [] = Inl SyntaxError"
proof -
  have trend: "list_all (\<lambda>m. \<exists>v. predict m [] = Inr v) (createTrendModels 48)"
    by (simp add: createTrendModels_def list_all_iff Let_def)
  from runModels_returns [OF this] obtain ps where ps: "runModels (createTrendModels 48) [] = Inr ps"
    by blast
  have "createMeanReversionModels 30 = hd (createMeanReversionModels 30) # tl (createMeanReversionModels 30)"
    by (simp add: createMeanReversionModels_def upt_conv_Cons)
  moreover have "predict (hd (createMeanReversionModels 30)) [] = Inl SyntaxError"
    by (simp add: createMeanReversionModels_def upt_conv_Cons Let_def meanReversionPrediction_def
        slice_def std_def)
  ultimately have mr: "runModels (createMeanReversionModels 30) [] = Inl SyntaxError"
    by (metis runModels.simps(2) sum.case(1))
  show ?thesis
    unfolding initializeModels_def runModels_append ps mr by simp
qed

text \<open>
  Claim C1 says that \<open>predictNextOutcome\<close> completes on every well-formed history, the
  empty one included, every edge case resolving to a default vote. On the empty history
  it does not: the call is rejected with the error of \<open>math.std\<close>. (On every history that
  is not empty the call returns: \<open>predict_returns\<close>.)
\<close>

theorem predict_empty_history_raises:
  "predictNextOutcome initializeModels [] = Inl SyntaxError"
  by (simp add: predictNextOutcome_def runModels_empty_history)

section \<open>The aggregated outcome\<close>

text \<open>
  Whenever \<open>predictNextOutcome\<close> returns a result, for any population and any history,
  its outcome is decided by the votes the models cast: it is BIG exactly when
  \<open>bigVotes\<close> is strictly greater than \<open>smallVotes\<close> and SMALL otherwise; in particular
  equal votes resolve to SMALL. With the constructed population this covers every
  history that is not empty.
\<close>

lemma outcome_rule:
  assumes "predictNextOutcome models h = Inr r"
  shows "\<exists>ps bigVotes smallVotes.
      runModels models h = Inr ps \<and> tallyVotes ps = (bigVotes, smallVotes)
      \<and> (r_outcome r = BIG \<longleftrightarrow> jgt bigVotes smallVotes)
      \<and> (r_outcome r = SMALL \<longleftrightarrow> \<not> jgt bigVotes smallVotes)
      \<and> (bigVotes = smallVotes \<longrightarrow> r_outcome r = SMALL)"
proof -
  from assms obtain ps where run: "runModels models h = Inr ps"
    by (cases "runModels models h") (simp_all add: predictNextOutcome_def)
  obtain b s where tally: "tallyVotes ps = (b, s)" by (cases "tallyVotes ps")
  from predict_result [OF run tally] assms
  have out: "r_outcome r = (if jgt b s then BIG else SMALL)" by auto
  have tie: "\<not> jgt b b" by (cases b) simp_all
  from out tie have "(r_outcome r = BIG \<longleftrightarrow> jgt b s) \<and> (r_outcome r = SMALL \<longleftrightarrow> \<not> jgt b s)
      \<and> (b = s \<longrightarrow> r_outcome r = SMALL)"
    by auto
  with run tally show ?thesis by blast
qed

lemma outcome_defined_on_nonempty_history:
  assumes "h \<noteq> []"
  shows "\<exists>r ps bigVotes smallVotes.
      predictNextOutcome initializeModels h = Inr r
      \<and> runModels initializeModels h = Inr ps \<and> tallyVotes ps = (bigVotes, smallVotes)
      \<and> (r_outcome r = BIG \<longleftrightarrow> jgt bigVotes smallVotes)
      \<and> (r_outcome r = SMALL \<longleftrightarrow> \<not> jgt bigVotes smallVotes)
      \<and> (bigVotes = smallVotes \<longrightarrow> r_outcome r = SMALL)"
proof -
  from predict_returns [OF assms] obtain r
    where r: "predictNextOutcome initializeModels h = Inr r" ..
  from outcome_rule [OF r] r show ?thesis by blast
qed

text \<open>
  Claim C2 says that for every history the aggregated outcome is defined, BIG exactly
  when \<open>bigVotes\<close> is strictly greater than \<open>smallVotes\<close>, a tie resolving to SMALL. On
  the empty history no outcome is defined: the call is rejected before any vote is
  counted.
\<close>

theorem outcome_undefined_on_empty_history:
  "map_sum id r_outcome (predictNextOutcome initializeModels []) = Inl SyntaxError"
  by (simp add: predictNextOutcome_def runModels_empty_history)

section \<open>The reported strings\<close>

text \<open>
  The two vote strings of the breakdown are the votes in percent, rounded to two
  fraction digits. With \<open>k\<close> of the 120 equal weights on one side, the rounded values
  are \<open>\<lfloor>(500 k + 3) / 6\<rfloor>\<close> hundredths of a percent; no vote lies on a rounding
  boundary.
\<close>

lemma fixed2_of_share:
  "toFixed2 (Fin (real m / 120 * 100)) = Fixed2 False (nat ((500 * int m + 3) div 6))" if "m \<le> 120"
proof -
  have "real m / 120 * 100 * 100 + 1 / 2 = real_of_int (500 * int m + 3) / real_of_int 6"
    by simp
  then have "\<lfloor>real m / 120 * 100 * 100 + 1 / 2\<rfloor> = (500 * int m + 3) div 6"
    by (simp only: floor_divide_of_int_eq)
  moreover have "\<bar>real m / 120 * 100\<bar> < 10 ^ 21"
    using that by simp
  moreover have "\<not> real m / 120 * 100 < 0" by simp
  moreover have "\<bar>real m / 120 * 100\<bar> = real m / 120 * 100" by simp
  ultimately show ?thesis by (simp del: of_int_add of_int_mult)
qed

lemma big_share_div:
  "(500 * (3 * q + r) + 3) div 6 = 250 * q + (500 * r + 3) div (6::int)"
proof -
  have "500 * (3 * q + r) + 3 = (500 * r + 3) + 6 * (250 * q)" by (simp add: algebra_simps)
  then show ?thesis by (simp only: div_mult_self2 [of 6, simplified])
qed

lemma small_share_div:
  "(60003 - 500 * (3 * q + r)) div 6 = (10000 - 250 * q) + (3 - 500 * r) div (6::int)"
proof -
  have "60003 - 500 * (3 * q + r) = (3 - 500 * r) + 6 * (10000 - 250 * q)" by (simp add: algebra_simps)
  then show ?thesis by (simp only: div_mult_self2 [of 6, simplified])
qed

lemma share_digits_int:
  fixes x :: int
  shows "(500 * x + 3) div 6 + (60003 - 500 * x) div 6 = 10000"
proof -
  define q where "q = x div 3"
  define r where "r = x mod 3"
  have x: "x = 3 * q + r" by (simp add: q_def r_def)
  have "0 \<le> r" "r < 3" by (simp_all add: r_def)
  then have "r = 0 \<or> r = 1 \<or> r = 2" by linarith
  then show ?thesis
    unfolding x big_share_div small_share_div
    by (elim disjE) simp_all
qed

lemma confidence_digits_int:
  fixes x :: int
  assumes "60 \<le> x" "x \<le> 120"
  shows "5000 \<le> (500 * x + 3) div 6" and "(500 * x + 3) div 6 \<le> 10000"
proof -
  have "30003 div 6 \<le> (500 * x + 3) div 6"
    by (rule zdiv_mono1) (use assms in simp_all)
  then show "5000 \<le> (500 * x + 3) div 6" by simp
  have "(500 * x + 3) div 6 \<le> 60003 div 6"
    by (rule zdiv_mono1) (use assms in simp_all)
  then show "(500 * x + 3) div 6 \<le> 10000" by simp
qed

lemma share_digits:
  assumes "k \<le> (120::nat)"
  shows "nat ((500 * int k + 3) div 6) + nat ((500 * int (120 - k) + 3) div 6) = 10000"
    and "5000 \<le> nat ((500 * int (max k (120 - k)) + 3) div 6)"
    and "nat ((500 * int (max k (120 - k)) + 3) div 6) \<le> 10000"
proof -
  have d: "500 * int (120 - k) + 3 = 60003 - 500 * int k"
    using assms by (simp add: of_nat_diff)
  have n1: "0 \<le> (500 * int k + 3) div 6"
    by (simp add: pos_imp_zdiv_nonneg_iff)
  have n2: "0 \<le> (60003 - 500 * int k) div 6"
    using assms by (simp add: pos_imp_zdiv_nonneg_iff)
  show "nat ((500 * int k + 3) div 6) + nat ((500 * int (120 - k) + 3) div 6) = 10000"
    unfolding d using share_digits_int [of "int k"] n1 n2 by linarith
  have m: "60 \<le> int (max k (120 - k))" "int (max k (120 - k)) \<le> 120"
    using assms by (auto simp add: max_def)
  show "5000 \<le> nat ((500 * int (max k (120 - k)) + 3) div 6)"
    using confidence_digits_int [OF m] by linarith
  show "nat ((500 * int (max k (120 - k)) + 3) div 6) \<le> 10000"
    using confidence_digits_int [OF m] by linarith
qed

section \<open>The sum of the votes\<close>

text \<open>
  The confidence expression of \<open>predictNextOutcome\<close> divides by the sum of the votes
  without a test of its own: were no vote counted, it would give \<open>0 / 0 \<times> 100 = NaN\<close>.
  No history leads there, as the theorem below shows.
\<close>

lemma confidence_without_votes: "voteConfidence (Fin 0, Fin 0) = NaN"
  by (simp add: voteConfidence_def)



section \<open>The contract of a prediction\<close>

text \<open>
  Claim C5. For every history of at least 50 records \<open>predictNextOutcome\<close> returns a
  result; its outcome is BIG or SMALL; the votes sum to 1 and the confidence is a number
  between 50 and 100, reported as a \<open>toFixed(2)\<close> string between "50.00" and "100.00";
  the two vote shares of the breakdown, reported in percent with two fraction digits,
  sum to exactly 100.00 percent, that is to 1.0.
\<close>

theorem predict_contract:
  assumes "50 \<le> length h"
  shows "\<exists>r ps b s c nc nb ns.
      predictNextOutcome initializeModels h = Inr r
      \<and> (r_outcome r = BIG \<or> r_outcome r = SMALL)
      \<and> runModels initializeModels h = Inr ps \<and> tallyVotes ps = (Fin b, Fin s)
      \<and> approxEq (1 / 10 ^ 6) (jadd (Fin b) (Fin s)) (Fin 1)
      \<and> voteConfidence (Fin b, Fin s) = Fin c \<and> 50 \<le> c \<and> c \<le> 100
      \<and> r_confidence r = Fixed2 False nc \<and> 5000 \<le> nc \<and> nc \<le> 10000
      \<and> bd_bigVotes (modelBreakdown r) = Fixed2 False nb
      \<and> bd_smallVotes (modelBreakdown r) = Fixed2 False ns
      \<and> nb + ns = 10000"
proof -
  from assms have "h \<noteq> []" by auto
  from population_tally [OF this] obtain ps k
    where run: "runModels initializeModels h = Inr ps" and k: "k \<le> 120"
      and tally: "tallyVotes ps = (Fin (real k / 120), Fin (real (120 - k) / 120))" by blast
  let ?b = "real k / 120" and ?s = "real (120 - k) / 120"
  let ?m = "max k (120 - k)"
  let ?c = "real ?m / 120 * 100"
  define r where "r = \<lparr>r_outcome = (if jgt (Fin ?b) (Fin ?s) then BIG else SMALL),
         r_confidence = toFixed2 (voteConfidence (Fin ?b, Fin ?s)),
         modelCount = length initializeModels,
         trendDirection = direction (analyzeTrend (map num h)),
         trendStrength = strength (analyzeTrend (map num h)),
         suggestedStake = calculateStake (voteConfidence (Fin ?b, Fin ?s)) (strength (analyzeTrend (map num h))),
         modelBreakdown =
           \<lparr>bd_bigVotes = toFixed2 (jmul (Fin ?b) (Fin 100)),
            bd_smallVotes = toFixed2 (jmul (Fin ?s) (Fin 100)),
            activeModels = length ps\<rparr>\<rparr>"
  have res: "predictNextOutcome initializeModels h = Inr r"
    unfolding r_def by (rule predict_result [OF run tally])
  have out: "r_outcome r = BIG \<or> r_outcome r = SMALL"
    by (cases "r_outcome r") simp_all
  have one: "approxEq (1 / 10 ^ 6) (jadd (Fin ?b) (Fin ?s)) (Fin 1)"
    using k by (simp add: of_nat_diff field_simps)
  have conf: "voteConfidence (Fin ?b, Fin ?s) = Fin ?c"
    by (rule confidence_of_votes [OF k])
  have m: "?m \<le> 120" "60 \<le> ?m" using k by auto
  have c: "50 \<le> ?c" "?c \<le> 100" using m by simp_all
  have rc: "r_confidence r = Fixed2 False (nat ((500 * int ?m + 3) div 6))"
    unfolding r_def by (simp only: PredictionResult.simps conf fixed2_of_share [OF m(1)])
  have rb: "bd_bigVotes (modelBreakdown r) = Fixed2 False (nat ((500 * int k + 3) div 6))"
    unfolding r_def by (simp only: PredictionResult.simps Breakdown.simps jmul.simps fixed2_of_share [OF k])
  have k': "120 - k \<le> 120" by simp
  have rs: "bd_smallVotes (modelBreakdown r) = Fixed2 False (nat ((500 * int (120 - k) + 3) div 6))"
    unfolding r_def by (simp only: PredictionResult.simps Breakdown.simps jmul.simps fixed2_of_share [OF k'])
  from res out run tally one conf c rc rb rs share_digits [OF k]
  show ?thesis by blast
qed

theorem predict_contract_witness:
  "50 \<le> length (replicate 50 (drawRecord 7))
   \<and> (\<exists>r nc. predictNextOutcome initializeModels (replicate 50 (drawRecord 7)) = Inr r
        \<and> r_confidence r = Fixed2 False nc \<and> 5000 \<le> nc \<and> nc \<le> 10000)"
proof -
  have len: "50 \<le> length (replicate 50 (drawRecord 7))" by simp
  from predict_contract [OF len] len show ?thesis by blast
qed

end
